theory Spec2Isabelle
  imports Main "HOL-Library.Word"
begin

unbundle bit_operations_syntax

section \<open>Python values shared by the operations\<close>

text \<open>
  The exceptions that the operations of \<^verbatim>\<open>spanner/django/operations.py\<close> can raise,
  directly or through the standard-library calls they make. \<open>OverflowError\<close> is raised
  by datetime arithmetic that leaves the years 1 to 9999; \<open>BinasciiError\<close> is
  \<^verbatim>\<open>binascii.Error\<close>, raised by \<^verbatim>\<open>b64decode\<close>.
\<close>

datatype error = ValueError | TypeError | OverflowError | BinasciiError

text \<open>Sequencing of a computation that may raise: the first exception wins.\<close>

definition bind_result :: "error + 'a \<Rightarrow> ('a \<Rightarrow> error + 'b) \<Rightarrow> error + 'b" where
  "bind_result r f = (case r of Inl e \<Rightarrow> Inl e | Inr x \<Rightarrow> f x)"

text \<open>
  The string operator \<^verbatim>\<open>template % args\<close> for string arguments. The templates of the
  module use the conversions \<^verbatim>\<open>%s\<close> and \<^verbatim>\<open>%%\<close> only. A template is read from left to
  right: \<^verbatim>\<open>%s\<close> consumes one argument (TypeError when none is left), \<^verbatim>\<open>%%\<close> gives a
  percent sign, a lone \<^verbatim>\<open>%\<close> at the end is a ValueError, and arguments left over at
  the end are a TypeError. Any other character after \<^verbatim>\<open>%\<close> is reported as ValueError,
  which is Python's answer for a character that is no conversion type; flags, widths
  and the numeric conversions do not occur in this module and are not modelled.
\<close>

fun pyformat :: "string \<Rightarrow> string list \<Rightarrow> error + string" where
  "pyformat [] [] = Inr []"
| "pyformat [] (a # as) = Inl TypeError"
| "pyformat (c # cs) args =
     (if c \<noteq> CHR ''%'' then map_sum id ((#) c) (pyformat cs args)
      else case cs of
          [] \<Rightarrow> Inl ValueError
        | d # ds \<Rightarrow>
            if d = CHR ''%'' then map_sum id ((#) CHR ''%'') (pyformat ds args)
            else if d = CHR ''s'' then
              (case args of
                  [] \<Rightarrow> Inl TypeError
                | a # as \<Rightarrow> map_sum id ((@) a) (pyformat ds as))
            else Inl ValueError)"

text \<open>\<^verbatim>\<open>d.get(key, default)\<close> on a dictionary.\<close>

definition dict_get :: "('k \<rightharpoonup> 'v) \<Rightarrow> 'k \<Rightarrow> 'v \<Rightarrow> 'v" where
  "dict_get d k dflt = (case d k of None \<Rightarrow> dflt | Some v \<Rightarrow> v)"

text \<open>The ambient configuration: \<^verbatim>\<open>settings.USE_TZ\<close> of the host framework.\<close>

record settings =
  USE_TZ :: bool

section \<open>Calendar extraction\<close>

text \<open>
  The class attribute \<^verbatim>\<open>extract_names\<close>: the lookup names that need a different name
  in the \<^verbatim>\<open>EXTRACT()\<close> function.
\<close>

definition extract_names :: "string \<rightharpoonup> string" where
  "extract_names = map_of
     [(''week_day'', ''dayofweek''),
      (''iso_week'', ''isoweek''),
      (''iso_year'', ''isoyear'')]"

definition date_extract_sql :: "string \<Rightarrow> string \<Rightarrow> error + string" where
  "date_extract_sql lookup_type field_name =
     (let lookup_type = dict_get extract_names lookup_type lookup_type
      in pyformat ''EXTRACT(%s FROM %s)'' [lookup_type, field_name])"

definition datetime_extract_sql :: "settings \<Rightarrow> string \<Rightarrow> string \<Rightarrow> string \<Rightarrow> error + string" where
  \<open>datetime_extract_sql cfg lookup_type field_name tzname =
     (let tzname = (if USE_TZ cfg then tzname else ''UTC'');
          lookup_type = dict_get extract_names lookup_type lookup_type
      in pyformat ''EXTRACT(%s FROM %s AT TIME ZONE "%s")'' [lookup_type, field_name, tzname])\<close>

definition time_extract_sql :: "string \<Rightarrow> string \<Rightarrow> error + string" where
  \<open>time_extract_sql lookup_type field_name =
     pyformat ''EXTRACT(%s FROM %s AT TIME ZONE "UTC")'' [lookup_type, field_name]\<close>

section \<open>Truncation\<close>

definition date_trunc_sql :: "string \<Rightarrow> string \<Rightarrow> error + string" where
  "date_trunc_sql lookup_type field_name =
     (let field_name =
            (if lookup_type = ''week''
             then ''DATE_SUB('' @ field_name @ '', INTERVAL 1 DAY)''
             else field_name)
      in bind_result (pyformat ''DATE_TRUNC(%s, %s)'' [field_name, lookup_type])
           (\<lambda>sql. Inr (if lookup_type = ''week''
                        then ''DATE_ADD('' @ sql @ '', INTERVAL 1 DAY)''
                        else sql)))"

definition datetime_trunc_sql :: "settings \<Rightarrow> string \<Rightarrow> string \<Rightarrow> string \<Rightarrow> error + string" where
  \<open>datetime_trunc_sql cfg lookup_type field_name tzname =
     (let tzname = (if USE_TZ cfg then tzname else ''UTC'');
          field_name =
            (if lookup_type = ''week''
             then ''TIMESTAMP_SUB('' @ field_name @ '', INTERVAL 1 DAY)''
             else field_name)
      in bind_result (pyformat ''TIMESTAMP_TRUNC(%s, %s, "%s")'' [field_name, lookup_type, tzname])
           (\<lambda>sql. Inr (if lookup_type = ''week''
                        then ''TIMESTAMP_ADD('' @ sql @ '', INTERVAL 1 DAY)''
                        else sql)))\<close>

section \<open>Text-pattern lookups\<close>

definition lookup_cast :: "string \<Rightarrow> string option \<Rightarrow> string" where
  "lookup_cast lookup_type internal_type =
     (if lookup_type \<in> set [''contains'', ''icontains'', ''startswith'', ''istartswith'',
                              ''endswith'', ''iendswith'', ''regex'', ''iregex'']
      then ''CAST(%s AS STRING)''
      else ''%s'')"

section \<open>Identifier quoting and statement shaping\<close>

text \<open>
  \<^verbatim>\<open>quote_name\<close> delegates to \<^verbatim>\<open>escape_name\<close> of \<^verbatim>\<open>spanner.dbapi.parse_utils\<close>, which
  is not part of this module; it is a parameter of every operation that quotes.
\<close>

definition quote_name :: "(string \<Rightarrow> string) \<Rightarrow> string \<Rightarrow> string" where
  "quote_name escape_name name = escape_name name"

text \<open>\<^verbatim>\<open>sep.join(items)\<close>.\<close>

fun join :: "string \<Rightarrow> string list \<Rightarrow> string" where
  "join sep [] = []"
| "join sep [x] = x"
| "join sep (x # y # ys) = x @ sep @ join sep (y # ys)"

text \<open>A comprehension whose element expression may raise: the first exception ends it.\<close>

fun map_result :: "('a \<Rightarrow> error + 'b) \<Rightarrow> 'a list \<Rightarrow> error + 'b list" where
  "map_result f [] = Inr []"
| "map_result f (x # xs) =
     bind_result (f x) (\<lambda>y. bind_result (map_result f xs) (\<lambda>ys. Inr (y # ys)))"

definition bulk_insert_sql :: "'f list \<Rightarrow> string list list \<Rightarrow> error + string" where
  "bulk_insert_sql flds placeholder_rows =
     (let placeholder_rows_sql = map (join '', '') placeholder_rows
      in bind_result (map_result (\<lambda>sql. pyformat ''(%s)'' [sql]) placeholder_rows_sql)
           (\<lambda>rows. Inr (''VALUES '' @ join '', '' rows)))"

text \<open>
  The \<^verbatim>\<open>style\<close> argument of \<^verbatim>\<open>sql_flush\<close> is the host framework's terminal style: an
  object whose attributes map a piece of SQL text to its (possibly coloured) rendering.
  \<open>no_style\<close> is the framework's plain style, which returns every text unchanged.
\<close>

record style =
  SQL_KEYWORD :: "string \<Rightarrow> string"
  SQL_FIELD :: "string \<Rightarrow> string"

definition no_style :: style where
  "no_style = \<lparr>SQL_KEYWORD = (\<lambda>text. text), SQL_FIELD = (\<lambda>text. text)\<rparr>"

definition sql_flush ::
  "(string \<Rightarrow> string) \<Rightarrow> style \<Rightarrow> string list \<Rightarrow> 'seq list \<Rightarrow> bool \<Rightarrow> error + string list" where
  "sql_flush escape_name style tables sequences allow_cascade =
     (if tables \<noteq> [] then
        bind_result
          (pyformat ''%s %s %%s'' [SQL_KEYWORD style ''DELETE'', SQL_KEYWORD style ''FROM''])
          (\<lambda>delete_sql.
             map_result
               (\<lambda>table. pyformat delete_sql [SQL_FIELD style (quote_name escape_name table)])
               tables)
      else Inr [])"

text \<open>Whether \<open>sub\<close> occurs in \<open>s\<close> as a contiguous piece (\<^verbatim>\<open>sub in s\<close>).\<close>

fun starts_with :: "string \<Rightarrow> string \<Rightarrow> bool" where
  "starts_with [] s = True"
| "starts_with (p # ps) [] = False"
| "starts_with (p # ps) (c # cs) = (p = c \<and> starts_with ps cs)"

fun contains_text :: "string \<Rightarrow> string \<Rightarrow> bool" where
  "contains_text sub [] = (sub = [])"
| "contains_text sub (c # cs) = (starts_with sub (c # cs) \<or> contains_text sub cs)"

section \<open>Dates, times and time zones\<close>

text \<open>
  The standard library's \<^verbatim>\<open>tzinfo\<close>, \<^verbatim>\<open>time\<close>, \<^verbatim>\<open>date\<close> and \<^verbatim>\<open>datetime\<close> objects, as far
  as the operations read them. A \<^verbatim>\<open>tzinfo\<close> is an object with a method \<^verbatim>\<open>utcoffset(dt)\<close>:
  \<open>utcoffset_at\<close> is its answer (in seconds) for a datetime with the given year, month,
  day, hour, minute, second and microsecond, \<open>utcoffset_none\<close> its answer for
  \<^verbatim>\<open>utcoffset(None)\<close>, which is what a \<^verbatim>\<open>time\<close> asks. Its method \<^verbatim>\<open>fromutc(dt)\<close>
  turns a time in UTC into the zone's local time: the fixed-offset zones and the zones of
  the time-zone database add the offset that is in force at that UTC time, which is
  \<open>utcoffset_utc\<close> (in seconds) for the fields of the UTC time.
\<close>

record tzinfo =
  tzname :: string
  utcoffset_at :: "nat \<Rightarrow> nat \<Rightarrow> nat \<Rightarrow> nat \<Rightarrow> nat \<Rightarrow> nat \<Rightarrow> nat \<Rightarrow> int option"
  utcoffset_none :: "int option"
  utcoffset_utc :: "nat \<Rightarrow> nat \<Rightarrow> nat \<Rightarrow> nat \<Rightarrow> nat \<Rightarrow> nat \<Rightarrow> nat \<Rightarrow> int"

record time =
  hour :: nat
  minute :: nat
  second :: nat
  microsecond :: nat
  tzinfo :: "tzinfo option"

record date =
  year :: nat
  month :: nat
  day :: nat

record datetime = date +
  hour :: nat
  minute :: nat
  second :: nat
  microsecond :: nat
  tzinfo :: "tzinfo option"

text \<open>
  \<^verbatim>\<open>DatetimeWithNanoseconds\<close>, the subclass of \<^verbatim>\<open>datetime\<close> in which the storage layer
  returns timestamps.
\<close>

record DatetimeWithNanoseconds = datetime +
  nanosecond :: nat

definition utcoffset :: "'a datetime_scheme \<Rightarrow> int option" where
  "utcoffset v =
     (case tzinfo v of
        None \<Rightarrow> None
      | Some tz \<Rightarrow> utcoffset_at tz (year v) (month v) (day v)
                     (hour v) (minute v) (second v) (microsecond v))"

definition time_utcoffset :: "time \<Rightarrow> int option" where
  "time_utcoffset t = (case time.tzinfo t of None \<Rightarrow> None | Some tz \<Rightarrow> utcoffset_none tz)"

text \<open>Decimal digits of a number, and \<^verbatim>\<open>'%0wd' % n\<close>: padded with zeros to width \<open>w\<close>.\<close>

fun dec_digits :: "nat \<Rightarrow> string" where
  "dec_digits n =
     (if n < 10 then [''0123456789'' ! n]
      else dec_digits (n div 10) @ [''0123456789'' ! (n mod 10)])"

declare dec_digits.simps [simp del]

definition zpad :: "nat \<Rightarrow> nat \<Rightarrow> string" where
  "zpad w n = replicate (w - length (dec_digits n)) CHR ''0'' @ dec_digits n"

text \<open>
  The suffix that \<^verbatim>\<open>isoformat\<close> appends for an aware value: sign, hours and minutes of
  the offset, and its seconds when they are not zero.
\<close>

definition format_offset :: "int option \<Rightarrow> string" where
  "format_offset off =
     (case off of
        None \<Rightarrow> []
      | Some d \<Rightarrow>
          (let sign = (if d < 0 then ''-'' else ''+'');
               a = nat \<bar>d\<bar>;
               hh = a div 3600;
               mm = (a mod 3600) div 60;
               ss = a mod 60
           in sign @ zpad 2 hh @ '':'' @ zpad 2 mm @
              (if ss \<noteq> 0 then '':'' @ zpad 2 ss else [])))"

definition format_time :: "nat \<Rightarrow> nat \<Rightarrow> nat \<Rightarrow> nat \<Rightarrow> string" where
  "format_time hh mm ss us = zpad 2 hh @ '':'' @ zpad 2 mm @ '':'' @ zpad 2 ss @ ''.'' @ zpad 6 us"

text \<open>\<^verbatim>\<open>str(d)\<close> of a date, which is \<^verbatim>\<open>d.isoformat()\<close>.\<close>

definition date_isoformat :: "'a date_scheme \<Rightarrow> string" where
  "date_isoformat d = zpad 4 (year d) @ ''-'' @ zpad 2 (month d) @ ''-'' @ zpad 2 (day d)"

text \<open>\<^verbatim>\<open>value.isoformat(timespec='microseconds')\<close> of a datetime and of a time.\<close>

definition datetime_isoformat :: "'a datetime_scheme \<Rightarrow> string" where
  "datetime_isoformat v =
     date_isoformat v @ ''T'' @
     format_time (hour v) (minute v) (second v) (microsecond v) @
     format_offset (utcoffset v)"

definition time_isoformat :: "time \<Rightarrow> string" where
  "time_isoformat t =
     format_time (time.hour t) (time.minute t) (time.second t) (time.microsecond t) @
     format_offset (time_utcoffset t)"

text \<open>
  The constructors \<^verbatim>\<open>datetime(...)\<close> and \<^verbatim>\<open>time(...)\<close> check the range of every field and
  raise ValueError outside it.
\<close>

definition is_leap :: "nat \<Rightarrow> bool" where
  "is_leap y = (y mod 4 = 0 \<and> (y mod 100 \<noteq> 0 \<or> y mod 400 = 0))"

definition days_in_month :: "nat \<Rightarrow> nat \<Rightarrow> nat" where
  "days_in_month y m =
     (if m = 2 \<and> is_leap y then 29
      else [0, 31, 28, 31, 30, 31, 30, 31, 31, 30, 31, 30, 31] ! m)"

definition check_date_fields :: "nat \<Rightarrow> nat \<Rightarrow> nat \<Rightarrow> bool" where
  "check_date_fields y m d =
     (1 \<le> y \<and> y \<le> 9999 \<and> 1 \<le> m \<and> m \<le> 12 \<and> 1 \<le> d \<and> d \<le> days_in_month y m)"

definition check_time_fields :: "nat \<Rightarrow> nat \<Rightarrow> nat \<Rightarrow> nat \<Rightarrow> bool" where
  "check_time_fields hh mm ss us = (hh \<le> 23 \<and> mm \<le> 59 \<and> ss \<le> 59 \<and> us \<le> 999999)"

definition new_datetime ::
  "nat \<Rightarrow> nat \<Rightarrow> nat \<Rightarrow> nat \<Rightarrow> nat \<Rightarrow> nat \<Rightarrow> nat \<Rightarrow> tzinfo option \<Rightarrow> error + datetime" where
  "new_datetime y m d hh mm ss us tz =
     (if \<not> check_date_fields y m d then Inl ValueError
      else if \<not> check_time_fields hh mm ss us then Inl ValueError
      else Inr \<lparr>year = y, month = m, day = d,
                hour = hh, minute = mm, second = ss, microsecond = us, tzinfo = tz\<rparr>)"

definition new_time :: "nat \<Rightarrow> nat \<Rightarrow> nat \<Rightarrow> nat \<Rightarrow> error + time" where
  "new_time hh mm ss us =
     (if \<not> check_time_fields hh mm ss us then Inl ValueError
      else Inr \<lparr>time.hour = hh, minute = mm, second = ss, microsecond = us, tzinfo = None\<rparr>)"

text \<open>
  Datetime arithmetic. The ordinal of a date counts days from 0001-01-01, which is day 1;
  the last day, 9999-12-31, is day 3652059. \<open>ymd2ord\<close> and \<open>ord2ymd\<close> are the standard
  library's conversions between a date and its ordinal.
\<close>

definition days_before_year :: "nat \<Rightarrow> nat" where
  "days_before_year y =
     (let y1 = y - 1 in y1 * 365 + y1 div 4 - y1 div 100 + y1 div 400)"

definition days_before_month :: "nat \<Rightarrow> nat \<Rightarrow> nat" where
  "days_before_month y m =
     [0, 0, 31, 59, 90, 120, 151, 181, 212, 243, 273, 304, 334] ! m +
     (if m > 2 \<and> is_leap y then 1 else 0)"

definition ymd2ord :: "nat \<Rightarrow> nat \<Rightarrow> nat \<Rightarrow> nat" where
  "ymd2ord y m d = days_before_year y + days_before_month y m + d"

definition ord2ymd :: "nat \<Rightarrow> nat \<times> nat \<times> nat" where
  "ord2ymd n =
     (let n = n - 1;
          n400 = n div 146097; n = n mod 146097;
          n100 = n div 36524; n = n mod 36524;
          n4 = n div 1461; n = n mod 1461;
          n1 = n div 365; n = n mod 365;
          y = n400 * 400 + 1 + n100 * 100 + n4 * 4 + n1
      in if n1 = 4 \<or> n100 = 4 then (y - 1, 12, 31)
         else
           (let leapyear = (n1 = 3 \<and> (n100 = 3 \<or> n4 \<noteq> 24));
                m = (n + 50) div 32;
                preceding =
                  [0, 0, 31, 59, 90, 120, 151, 181, 212, 243, 273, 304, 334] ! m +
                  (if m > 2 \<and> leapyear then 1 else 0)
            in if preceding > n then
                 (let m = m - 1;
                      preceding = preceding -
                        ([0, 31, 28, 31, 30, 31, 30, 31, 31, 30, 31, 30, 31] ! m +
                         (if m = 2 \<and> leapyear then 1 else 0))
                  in (y, m, n - preceding + 1))
               else (y, m, n - preceding + 1)))"

text \<open>
  \<^verbatim>\<open>value + delta\<close> for a datetime and a timedelta of whole seconds (\<^verbatim>\<open>value - delta\<close> adds
  the negated delta): the day number and the seconds of the day are added up, and a day
  number outside 1 to 3652059 raises OverflowError. The microsecond and the attached
  zone stay.
\<close>

definition datetime_add :: "datetime \<Rightarrow> int \<Rightarrow> error + datetime" where
  "datetime_add v delta =
     (let secs = int (hour v * 3600 + minute v * 60 + second v) + delta;
          days = int (ymd2ord (year v) (month v) (day v)) + secs div 86400;
          rem = nat (secs mod 86400)
      in if 0 < days \<and> days \<le> 3652059 then
           (case ord2ymd (nat days) of
              (y, m, d) \<Rightarrow>
                Inr (v\<lparr>year := y, month := m, day := d,
                        hour := rem div 3600, minute := (rem mod 3600) div 60,
                        second := rem mod 60\<rparr>))
         else Inl OverflowError)"

definition fromutc :: "tzinfo \<Rightarrow> datetime \<Rightarrow> error + datetime" where
  "fromutc tz dt =
     datetime_add dt
       (utcoffset_utc tz (year dt) (month dt) (day dt)
          (hour dt) (minute dt) (second dt) (microsecond dt))"

text \<open>
  \<^verbatim>\<open>value.astimezone(tz)\<close>. A value that reports no offset is read in the local zone of the
  system; \<open>local_utcoffset\<close> is that zone's offset for the value. A value that is already
  in the zone \<open>tz\<close> is returned as it is. Otherwise its own offset is subtracted, which
  gives the time in UTC, and \<open>tz\<close> converts that to its local time. A zone object is
  identified with its fields here.
\<close>

definition astimezone :: "(datetime \<Rightarrow> int) \<Rightarrow> datetime \<Rightarrow> tzinfo \<Rightarrow> error + datetime" where
  "astimezone local_utcoffset v tz =
     (let to_tz = (\<lambda>myoffset.
            bind_result (datetime_add v (- myoffset))
              (\<lambda>utc. fromutc tz (utc\<lparr>tzinfo := Some tz\<rparr>)))
      in case utcoffset v of
           None \<Rightarrow> to_tz (local_utcoffset v)
         | Some myoffset \<Rightarrow> if tzinfo v = Some tz then Inr v else to_tz myoffset)"

text \<open>
  The host framework's \<^verbatim>\<open>timezone.is_aware\<close>, \<^verbatim>\<open>timezone.is_naive\<close> and
  \<^verbatim>\<open>timezone.make_naive\<close>.
\<close>

definition is_aware :: "datetime \<Rightarrow> bool" where
  "is_aware v = (utcoffset v \<noteq> None)"

definition is_naive :: "datetime \<Rightarrow> bool" where
  "is_naive v = (utcoffset v = None)"

definition make_naive :: "(datetime \<Rightarrow> int) \<Rightarrow> datetime \<Rightarrow> tzinfo \<Rightarrow> error + datetime" where
  "make_naive local_utcoffset v tz =
     (if is_naive v then Inl ValueError
      else bind_result (astimezone local_utcoffset v tz)
             (\<lambda>converted. Inr (converted\<lparr>tzinfo := None\<rparr>)))"

text \<open>The connection of the operations object: its configured time zone.\<close>

record connection =
  timezone :: tzinfo

section \<open>Outbound value adaptation\<close>

text \<open>
  Modelled from the spec: \<^verbatim>\<open>DateStr\<close> and \<^verbatim>\<open>TimestampStr\<close> of
  \<^verbatim>\<open>spanner.dbapi.parse_utils\<close> are not part of this module. The spec gives the wire
  values as a date string and a timestamp string: each is the text with a tag that
  tells the two apart.
\<close>

datatype DateStr = DateStr string

datatype TimestampStr = TimestampStr string

definition adapt_datefield_value :: "date option \<Rightarrow> DateStr option" where
  "adapt_datefield_value v =
     (case v of
        None \<Rightarrow> None
      | Some d \<Rightarrow> Some (DateStr (date_isoformat d)))"

text \<open>
  The value given to \<^verbatim>\<open>adapt_datetimefield_value\<close> is a datetime, or an expression of
  the host framework (an object with the attribute \<^verbatim>\<open>resolve_expression\<close>), which is
  returned as it is. The first argument is the system's local offset, which the
  standard library reads when it converts a value that reports no offset.
\<close>

datatype 'e datetime_param = Expression 'e | Literal datetime

datatype 'e datetime_wire = Unadapted 'e | Adapted TimestampStr

definition adapt_datetimefield_value ::
  "(datetime \<Rightarrow> int) \<Rightarrow> settings \<Rightarrow> connection \<Rightarrow>
   'e datetime_param option \<Rightarrow> error + 'e datetime_wire option" where
  "adapt_datetimefield_value local_utcoffset cfg conn v =
     (case v of
        None \<Rightarrow> Inr None
      | Some (Expression e) \<Rightarrow> Inr (Some (Unadapted e))
      | Some (Literal d) \<Rightarrow>
          bind_result
            (if is_aware d then
               (if USE_TZ cfg then make_naive local_utcoffset d (timezone conn)
                else Inl ValueError)
             else Inr d)
            (\<lambda>d. Inr (Some (Adapted (TimestampStr (datetime_isoformat d @ ''Z''))))))"

text \<open>
  \<^verbatim>\<open>float(value)\<close> on a decimal is the standard library's conversion to a 64-bit float;
  it is a parameter, and so are the types of decimals and floats.
\<close>

definition adapt_decimalfield_value ::
  "('dec \<Rightarrow> error + 'flt) \<Rightarrow> 'dec option \<Rightarrow> nat option \<Rightarrow> nat option \<Rightarrow> error + 'flt option" where
  "adapt_decimalfield_value float_of v max_digits decimal_places =
     (case v of
        None \<Rightarrow> Inr None
      | Some d \<Rightarrow> bind_result (float_of d) (\<lambda>f. Inr (Some f)))"

definition adapt_timefield_value :: "time option \<Rightarrow> TimestampStr option" where
  "adapt_timefield_value v =
     (case v of
        None \<Rightarrow> None
      | Some t \<Rightarrow> Some (TimestampStr (''0001-01-01T'' @ time_isoformat t @ ''Z'')))"

section \<open>Base64\<close>

text \<open>
  The standard library's \<^verbatim>\<open>b64encode\<close> and \<^verbatim>\<open>b64decode\<close>. Bytes are \<open>8 word\<close>; the
  base64 text is a string of one-byte characters. \<open>table_b2a_base64\<close> is the alphabet,
  \<open>table_a2b_base64\<close> its inverse table, with \<open>None\<close> for a character outside it.
\<close>

definition table_b2a_base64 :: string where
  "table_b2a_base64 = ''ABCDEFGHIJKLMNOPQRSTUVWXYZabcdefghijklmnopqrstuvwxyz0123456789+/''"

fun index_of :: "'a \<Rightarrow> 'a list \<Rightarrow> nat option" where
  "index_of x [] = None"
| "index_of x (y # ys) = (if x = y then Some 0 else map_option Suc (index_of x ys))"

definition table_a2b_base64 :: "char \<Rightarrow> 8 word option" where
  "table_a2b_base64 c = map_option of_nat (index_of c table_b2a_base64)"

definition b2a :: "8 word \<Rightarrow> char" where
  "b2a v = table_b2a_base64 ! unat v"

text \<open>
  Encoding: three bytes give four characters; one or two bytes left at the end give two
  or three characters, padded with \<^verbatim>\<open>=\<close> to four.
\<close>

fun b64encode :: "8 word list \<Rightarrow> string" where
  "b64encode [] = []"
| "b64encode [a] =
     [b2a (drop_bit 2 a), b2a (push_bit 4 (a AND 3)), CHR ''='', CHR ''='']"
| "b64encode [a, b] =
     [b2a (drop_bit 2 a), b2a (push_bit 4 (a AND 3) OR drop_bit 4 b),
      b2a (push_bit 2 (b AND 15)), CHR ''='']"
| "b64encode (a # b # c # rest) =
     [b2a (drop_bit 2 a), b2a (push_bit 4 (a AND 3) OR drop_bit 4 b),
      b2a (push_bit 2 (b AND 15) OR drop_bit 6 c), b2a (c AND 63)] @ b64encode rest"

text \<open>
  Decoding without validation, the loop of \<^verbatim>\<open>binascii.a2b_base64\<close>: a character outside
  the alphabet is skipped; \<open>quad_pos\<close> counts the alphabet characters of the current
  group of four and \<open>leftchar\<close> holds the bits not yet written; a pad character ends the
  input once the group has at least two characters and the pads complete it, and is
  skipped otherwise. At the end of the input an incomplete group is an error.
\<close>

fun a2b_base64_loop ::
  "string \<Rightarrow> nat \<Rightarrow> 8 word \<Rightarrow> nat \<Rightarrow> 8 word list \<Rightarrow> error + 8 word list" where
  "a2b_base64_loop [] quad_pos leftchar pads out =
     (if quad_pos \<noteq> 0 then Inl BinasciiError else Inr out)"
| "a2b_base64_loop (this_ch # rest) quad_pos leftchar pads out =
     (if this_ch = CHR ''='' then
        (if quad_pos \<ge> 2 \<and> quad_pos + (pads + 1) \<ge> 4 then Inr out
         else a2b_base64_loop rest quad_pos leftchar
                (if quad_pos \<ge> 2 then pads + 1 else pads) out)
      else case table_a2b_base64 this_ch of
          None \<Rightarrow> a2b_base64_loop rest quad_pos leftchar pads out
        | Some v \<Rightarrow>
            if quad_pos = 0 then a2b_base64_loop rest 1 v 0 out
            else if quad_pos = 1 then
              a2b_base64_loop rest 2 (v AND 0x0f) 0 (out @ [push_bit 2 leftchar OR drop_bit 4 v])
            else if quad_pos = 2 then
              a2b_base64_loop rest 3 (v AND 0x03) 0 (out @ [push_bit 4 leftchar OR drop_bit 2 v])
            else a2b_base64_loop rest 0 0 0 (out @ [push_bit 6 leftchar OR v]))"

definition b64decode :: "string \<Rightarrow> error + 8 word list" where
  "b64decode s = a2b_base64_loop s 0 0 0 []"

section \<open>Inbound value conversion\<close>

text \<open>
  Every converter takes the value, the expression and the connection; the last two are
  not read. \<open>self.connection\<close> is the first argument where the converter reads it.
\<close>

definition convert_binaryfield_value ::
  "string option \<Rightarrow> 'x \<Rightarrow> 'c \<Rightarrow> error + 8 word list option" where
  "convert_binaryfield_value v expression conn =
     (case v of
        None \<Rightarrow> Inr None
      | Some s \<Rightarrow> bind_result (b64decode s) (\<lambda>b. Inr (Some b)))"

definition convert_datetimefield_value ::
  "connection \<Rightarrow> DatetimeWithNanoseconds option \<Rightarrow> 'x \<Rightarrow> 'c \<Rightarrow> error + datetime option" where
  "convert_datetimefield_value self_connection v expression conn =
     (case v of
        None \<Rightarrow> Inr None
      | Some d \<Rightarrow>
          bind_result
            (new_datetime (year d) (month d) (day d)
               (hour d) (minute d) (second d) (microsecond d)
               (Some (timezone self_connection)))
            (\<lambda>r. Inr (Some r)))"

text \<open>
  \<^verbatim>\<open>Decimal(str(value))\<close>: the rendering of a float as text and the parsing of a decimal
  are the standard library's, and parameters here.
\<close>

definition convert_decimalfield_value ::
  "('flt \<Rightarrow> string) \<Rightarrow> (string \<Rightarrow> error + 'dec) \<Rightarrow> 'flt option \<Rightarrow> 'x \<Rightarrow> 'c \<Rightarrow>
   error + 'dec option" where
  "convert_decimalfield_value str_of Decimal v expression conn =
     (case v of
        None \<Rightarrow> Inr None
      | Some f \<Rightarrow> bind_result (Decimal (str_of f)) (\<lambda>d. Inr (Some d)))"

definition convert_timefield_value ::
  "DatetimeWithNanoseconds option \<Rightarrow> 'x \<Rightarrow> 'c \<Rightarrow> error + time option" where
  "convert_timefield_value v expression conn =
     (case v of
        None \<Rightarrow> Inr None
      | Some d \<Rightarrow>
          bind_result (new_time (hour d) (minute d) (second d) (microsecond d))
            (\<lambda>t. Inr (Some t)))"

text \<open>\<^verbatim>\<open>UUID(value)\<close>, the standard library's parser of UUID text, is a parameter.\<close>

definition convert_uuidfield_value ::
  "(string \<Rightarrow> error + 'u) \<Rightarrow> string option \<Rightarrow> 'x \<Rightarrow> 'c \<Rightarrow> error + 'u option" where
  "convert_uuidfield_value UUID v expression conn =
     (case v of
        Some s \<Rightarrow> bind_result (UUID s) (\<lambda>u. Inr (Some u))
      | None \<Rightarrow> Inr None)"

text \<open>
  \<^verbatim>\<open>get_db_converters\<close> appends the converter of the expression's field type to the
  converters of the base class.
\<close>

datatype converter =
  Base_converter string
| Convert_datetimefield_value
| Convert_decimalfield_value
| Convert_timefield_value
| Convert_binaryfield_value
| Convert_uuidfield_value

definition get_db_converters :: "converter list \<Rightarrow> string \<Rightarrow> converter list" where
  "get_db_converters super_converters internal_type =
     (if internal_type = ''DateTimeField'' then super_converters @ [Convert_datetimefield_value]
      else if internal_type = ''DecimalField'' then super_converters @ [Convert_decimalfield_value]
      else if internal_type = ''TimeField'' then super_converters @ [Convert_timefield_value]
      else if internal_type = ''BinaryField'' then super_converters @ [Convert_binaryfield_value]
      else if internal_type = ''UUIDField'' then super_converters @ [Convert_uuidfield_value]
      else super_converters)"

section \<open>Operands of pattern lookups\<close>

text \<open>
  The standard library's \<^verbatim>\<open>re.escape\<close> (Python 3.7 and later): a backslash before each
  character that can have a special meaning in a regular expression, and every other
  character unchanged.
\<close>

definition special_chars :: string where
  "special_chars =
     ''()[]{}?*+-|^$'' @ [CHR 0x5C] @ ''.&~# '' @ [CHR 0x09, CHR 0x0A, CHR 0x0D, CHR 0x0B, CHR 0x0C]"

fun re_escape :: "string \<Rightarrow> string" where
  "re_escape [] = []"
| "re_escape (c # cs) =
     (if c \<in> set special_chars then CHR 0x5C # c # re_escape cs else c # re_escape cs)"

text \<open>\<^verbatim>\<open>str(x)\<close> depends on the class of \<open>x\<close>; it is a parameter.\<close>

definition prep_for_like_query :: "('a \<Rightarrow> string) \<Rightarrow> 'a \<Rightarrow> string" where
  "prep_for_like_query str_of x = re_escape (str_of x)"

definition prep_for_iexact_query :: "('a \<Rightarrow> string) \<Rightarrow> 'a \<Rightarrow> string" where
  "prep_for_iexact_query = prep_for_like_query"

section \<open>Example values\<close>

text \<open>
  Zones of a fixed offset: UTC, nine hours east of it and five hours west of it. A
  timestamp in UTC late on the day before a leap day, and the first instant a datetime can hold, in UTC.
\<close>

definition fixed_offset :: "string \<Rightarrow> int \<Rightarrow> tzinfo" where
  "fixed_offset name off =
     \<lparr>tzname = name, utcoffset_at = (\<lambda>y m d hh mm ss us. Some off),
      utcoffset_none = Some off, utcoffset_utc = (\<lambda>y m d hh mm ss us. off)\<rparr>"

definition utc :: tzinfo where
  "utc = fixed_offset ''UTC'' 0"





section \<open>Properties of the string operator\<close>

lemma pyformat_literal_prefix:
  "CHR ''%'' \<notin> set p \<Longrightarrow> pyformat (p @ t) args = map_sum id ((@) p) (pyformat t args)"
proof (induction p)
  case Nil
  show ?case by (cases "pyformat t args") simp_all
next
  case (Cons c p)
  then show ?case by (cases "pyformat t args") auto
qed

lemma pyformat_delete_sql:
  assumes "CHR ''%'' \<notin> set k1" "CHR ''%'' \<notin> set k2"
  shows "pyformat ''%s %s %%s'' [k1, k2] = Inr (k1 @ '' '' @ k2 @ '' %s'')"
    and "pyformat (k1 @ '' '' @ k2 @ '' %s'') [x] = Inr (k1 @ '' '' @ k2 @ '' '' @ x)"
  using assms by (simp_all add: pyformat_literal_prefix)

lemma map_result_Inr: "map_result (\<lambda>x. Inr (f x)) xs = Inr (map f xs)"
  by (induction xs) (simp_all add: bind_result_def)

section \<open>Mass delete\<close>

text \<open>
  For a style whose keywords hold no percent sign, \<open>sql_flush\<close> gives one statement per
  table, in the order of the tables: the two keywords and the quoted table name, and
  nothing after the name.
\<close>

lemma sql_flush_statements:
  assumes "CHR ''%'' \<notin> set (SQL_KEYWORD style ''DELETE'')"
    and "CHR ''%'' \<notin> set (SQL_KEYWORD style ''FROM'')"
  shows "sql_flush escape_name style tables sequences allow_cascade =
    Inr (map (\<lambda>table. SQL_KEYWORD style ''DELETE'' @ '' '' @ SQL_KEYWORD style ''FROM'' @ '' '' @
                        SQL_FIELD style (escape_name table)) tables)"
proof (cases "tables = []")
  case True
  then show ?thesis by (simp add: sql_flush_def)
next
  case False
  then show ?thesis
    unfolding sql_flush_def quote_name_def
    apply (simp only: pyformat_delete_sql [OF assms] bind_result_def sum.case map_result_Inr)
    apply simp
    done
qed

lemma sql_flush_empty: "sql_flush escape_name style [] sequences allow_cascade = Inr []"
  by (simp add: sql_flush_def)

text \<open>
  C1. The claim: one DELETE statement per table, in input order, each with a WHERE clause
  over an always-true predicate. The code: for the tables \<open>a\<close> and \<open>b\<close>, plain style
  and a quoting that leaves plain names unchanged, the statements are \<open>DELETE FROM a\<close>
  and \<open>DELETE FROM b\<close>. Neither holds a WHERE clause.
\<close>

theorem sql_flush_without_where:
  "sql_flush (\<lambda>name. name) no_style [''a'', ''b''] sequences allow_cascade =
     Inr [''DELETE FROM a'', ''DELETE FROM b''] \<and>
   \<not> contains_text ''WHERE'' ''DELETE FROM a'' \<and>
   \<not> contains_text ''WHERE'' ''DELETE FROM b''"
  by (simp add: sql_flush_def no_style_def quote_name_def bind_result_def)

section \<open>Extraction\<close>

lemma dict_get_extract_names:
  "dict_get extract_names ''week_day'' d = ''dayofweek''"
  "dict_get extract_names ''iso_week'' d = ''isoweek''"
  "dict_get extract_names ''iso_year'' d = ''isoyear''"
  "u \<notin> dom extract_names \<Longrightarrow> dict_get extract_names u d = d"
  by (auto simp add: dict_get_def extract_names_def split: option.splits)

text \<open>
  \<open>time_extract_sql\<close> emits the unit name as it is given, and the zone \<open>UTC\<close> whatever
  the settings are (it does not read them).
\<close>

lemma time_extract_sql_fragment:
  \<open>time_extract_sql u f = Inr (''EXTRACT('' @ u @ '' FROM '' @ f @ '' AT TIME ZONE "UTC")'')\<close>
  by (simp add: time_extract_sql_def)

text \<open>
  C2. The claim: \<open>time_extract_sql\<close> translates the unit through the synonym table and
  forces the zone \<open>UTC\<close>. The code: the zone is \<open>UTC\<close>, but \<open>week_day\<close> is emitted
  untranslated, where \<open>date_extract_sql\<close> and \<open>datetime_extract_sql\<close> emit
  \<open>dayofweek\<close>.
\<close>

theorem time_extract_sql_week_day:
  \<open>time_extract_sql ''week_day'' ''col'' = Inr ''EXTRACT(week_day FROM col AT TIME ZONE "UTC")'' \<and>
   date_extract_sql ''week_day'' ''col'' = Inr ''EXTRACT(dayofweek FROM col)'' \<and>
   datetime_extract_sql \<lparr>USE_TZ = False\<rparr> ''week_day'' ''col'' ''Europe/Paris'' =
     Inr ''EXTRACT(dayofweek FROM col AT TIME ZONE "UTC")''\<close>
  by (simp add: time_extract_sql_def date_extract_sql_def datetime_extract_sql_def
      dict_get_extract_names)

text \<open>
  C6. \<open>date_extract_sql\<close> for \<open>week_day\<close> yields \<open>EXTRACT(dayofweek FROM col)\<close>, and for a
  unit that is not in the synonym table \<open>EXTRACT(unit FROM col)\<close> with the unit unchanged.
\<close>

theorem date_extract_sql_units:
  "date_extract_sql ''week_day'' col = Inr (''EXTRACT(dayofweek FROM '' @ col @ '')'') \<and>
   (u \<notin> dom extract_names \<longrightarrow>
      date_extract_sql u col = Inr (''EXTRACT('' @ u @ '' FROM '' @ col @ '')''))"
  by (simp add: date_extract_sql_def dict_get_extract_names)

theorem date_extract_sql_units_witness:
  "''day'' \<notin> dom extract_names \<and>
   date_extract_sql ''week_day'' ''col'' = Inr ''EXTRACT(dayofweek FROM col)'' \<and>
   date_extract_sql ''day'' ''col'' = Inr ''EXTRACT(day FROM col)''"
  using date_extract_sql_units [of "''col''" "''day''"]
  by (simp add: extract_names_def)

section \<open>Week truncation\<close>

text \<open>
  C4. For the unit \<open>week\<close>, \<open>date_trunc_sql\<close> and \<open>datetime_trunc_sql\<close> subtract one day
  from the field before the truncation and add one day to the truncated result, as
  nested SQL function calls; for any other unit the truncation is applied to the field
  itself.
\<close>

theorem trunc_sql_week_shift:
  \<open>date_trunc_sql ''week'' f =
     Inr (''DATE_ADD(DATE_TRUNC(DATE_SUB('' @ f @ '', INTERVAL 1 DAY), week), INTERVAL 1 DAY)'') \<and>
   datetime_trunc_sql cfg ''week'' f tz =
     Inr (''TIMESTAMP_ADD(TIMESTAMP_TRUNC(TIMESTAMP_SUB('' @ f @ '', INTERVAL 1 DAY), week, "'' @
          (if USE_TZ cfg then tz else ''UTC'') @ ''"), INTERVAL 1 DAY)'') \<and>
   (u \<noteq> ''week'' \<longrightarrow>
      date_trunc_sql u f = Inr (''DATE_TRUNC('' @ f @ '', '' @ u @ '')'') \<and>
      datetime_trunc_sql cfg u f tz =
        Inr (''TIMESTAMP_TRUNC('' @ f @ '', '' @ u @ '', "'' @
             (if USE_TZ cfg then tz else ''UTC'') @ ''")''))\<close>
  by (simp add: date_trunc_sql_def datetime_trunc_sql_def bind_result_def)

theorem trunc_sql_week_shift_witness:
  \<open>''month'' \<noteq> ''week'' \<and>
   date_trunc_sql ''week'' ''col'' =
     Inr ''DATE_ADD(DATE_TRUNC(DATE_SUB(col, INTERVAL 1 DAY), week), INTERVAL 1 DAY)'' \<and>
   date_trunc_sql ''month'' ''col'' = Inr ''DATE_TRUNC(col, month)'' \<and>
   datetime_trunc_sql \<lparr>USE_TZ = True\<rparr> ''month'' ''col'' ''Europe/Paris'' =
     Inr ''TIMESTAMP_TRUNC(col, month, "Europe/Paris")''\<close>
  using trunc_sql_week_shift [of "''col''" "\<lparr>USE_TZ = True\<rparr>" "''Europe/Paris''" "''month''"]
  by simp

section \<open>Lookup casts\<close>

text \<open>
  C7. For the eight text lookups \<open>lookup_cast\<close> returns the fragment
  \<open>CAST(%s AS STRING)\<close>, for every other lookup the fragment \<open>%s\<close>; filled with a column
  reference, the first wraps it in the cast and the second gives it back unchanged.
\<close>

theorem lookup_cast_fragments:
  "(k \<in> {''contains'', ''icontains'', ''startswith'', ''istartswith'',
          ''endswith'', ''iendswith'', ''regex'', ''iregex''} \<longrightarrow>
      lookup_cast k internal_type = ''CAST(%s AS STRING)'') \<and>
   (k \<notin> {''contains'', ''icontains'', ''startswith'', ''istartswith'',
          ''endswith'', ''iendswith'', ''regex'', ''iregex''} \<longrightarrow>
      lookup_cast k internal_type = ''%s'') \<and>
   pyformat ''CAST(%s AS STRING)'' [col] = Inr (''CAST('' @ col @ '' AS STRING)'') \<and>
   pyformat ''%s'' [col] = Inr col"
  by (simp add: lookup_cast_def)

theorem lookup_cast_fragments_witness:
  "lookup_cast ''contains'' None = ''CAST(%s AS STRING)'' \<and>
   lookup_cast ''exact'' None = ''%s'' \<and>
   pyformat (lookup_cast ''contains'' None) [''col''] = Inr ''CAST(col AS STRING)'' \<and>
   pyformat (lookup_cast ''exact'' None) [''col''] = Inr ''col''"
  using lookup_cast_fragments [of "''contains''" None "''col''"]
    lookup_cast_fragments [of "''exact''" None "''col''"]
  by simp

section \<open>Encoding of datetimes\<close>

lemma dec_digits_length: "0 < w \<Longrightarrow> n < 10 ^ w \<Longrightarrow> length (dec_digits n) \<le> w"
proof (induction n arbitrary: w rule: dec_digits.induct)
  case (1 n)
  show ?case
  proof (cases "n < 10")
    case True
    with "1.prems" show ?thesis by (simp add: dec_digits.simps [of n])
  next
    case False
    with "1.prems" obtain w' where w: "w = Suc w'" "0 < w'"
      by (cases w; cases "w - 1") auto
    from "1.prems" w have "n div 10 < 10 ^ w'" by (simp add: less_mult_imp_div_less mult.commute)
    with "1.IH" False w have "length (dec_digits (n div 10)) \<le> w'" by simp
    with False w show ?thesis by (simp add: dec_digits.simps [of n])
  qed
qed

lemma zpad_length: "0 < w \<Longrightarrow> n < 10 ^ w \<Longrightarrow> length (zpad w n) = w"
  using dec_digits_length [of w n] by (simp add: zpad_def)

















section \<open>Null values\<close>

text \<open>
  C5. Every encode function and every decode converter maps a null value to null. The
  kind-specific conversions are arguments of the functions here, so the result does not
  depend on them: they are not called.
\<close>

theorem null_passes_through:
  "adapt_datefield_value None = None \<and>
   adapt_datetimefield_value local_utcoffset cfg conn None = Inr None \<and>
   adapt_decimalfield_value float_of None max_digits decimal_places = Inr None \<and>
   adapt_timefield_value None = None \<and>
   convert_binaryfield_value None expression c = Inr None \<and>
   convert_datetimefield_value conn None expression c = Inr None \<and>
   convert_decimalfield_value str_of Decimal None expression c = Inr None \<and>
   convert_timefield_value None expression c = Inr None \<and>
   convert_uuidfield_value UUID None expression c = Inr None"
  by (simp add: adapt_datefield_value_def adapt_datetimefield_value_def
      adapt_decimalfield_value_def adapt_timefield_value_def convert_binaryfield_value_def
      convert_datetimefield_value_def convert_decimalfield_value_def
      convert_timefield_value_def convert_uuidfield_value_def)

section \<open>Pattern-lookup operands\<close>

lemma re_escape_concat:
  "re_escape s = concat (map (\<lambda>c. if c \<in> set special_chars then [CHR 0x5C, c] else [c]) s)"
  by (induction s) simp_all

text \<open>
  C10. The operand preparation of case-insensitive exact lookups is the one of pattern
  lookups: the same function. It returns the string rendering of its argument with a
  backslash put before every character that can have a special meaning in a regular
  expression, and every other character as it is; so \<open>a.b*c\<close> becomes \<open>a\.b\*c\<close>, for
  both, and a text of letters, digits and underscores is unchanged.
\<close>

theorem prep_for_iexact_query_is_like:
  "prep_for_iexact_query str_of x = prep_for_like_query str_of x \<and>
   prep_for_like_query str_of x = re_escape (str_of x) \<and>
   prep_for_iexact_query str_of x = re_escape (str_of x) \<and>
   prep_for_iexact_query str_of x =
     concat (map (\<lambda>c. if c \<in> set (''()[]{}?*+-|^$'' @ [CHR 0x5C] @ ''.&~# '' @
                                     [CHR 0x09, CHR 0x0A, CHR 0x0D, CHR 0x0B, CHR 0x0C])
                        then [CHR 0x5C, c] else [c])
               (str_of x)) \<and>
   prep_for_iexact_query (\<lambda>s. s) ''a.b*c'' = ''a'' @ [CHR 0x5C] @ ''.b'' @ [CHR 0x5C] @ ''*c'' \<and>
   prep_for_like_query (\<lambda>s. s) ''a.b*c'' = ''a'' @ [CHR 0x5C] @ ''.b'' @ [CHR 0x5C] @ ''*c'' \<and>
   prep_for_iexact_query (\<lambda>s. s) ''abc_12'' = ''abc_12''"
proof -
  have escaped: "prep_for_like_query str_of x =
     concat (map (\<lambda>c. if c \<in> set (''()[]{}?*+-|^$'' @ [CHR 0x5C] @ ''.&~# '' @
                                     [CHR 0x09, CHR 0x0A, CHR 0x0D, CHR 0x0B, CHR 0x0C])
                        then [CHR 0x5C, c] else [c])
               (str_of x))"
    unfolding prep_for_like_query_def re_escape_concat special_chars_def ..
  have instances:
    "re_escape ''a.b*c'' = ''a'' @ [CHR 0x5C] @ ''.b'' @ [CHR 0x5C] @ ''*c''"
    "re_escape ''abc_12'' = ''abc_12''"
    by (simp_all add: special_chars_def)
  show ?thesis
    using escaped instances
    by (simp add: prep_for_iexact_query_def prep_for_like_query_def)
qed

section \<open>Binary values\<close>

text \<open>The two tables are inverse to each other on the 64 six-bit values, and no character of the alphabet is the pad.\<close>

lemma table_a2b_b2a_upto:
  "\<forall>n \<in> set [0..<64]. table_a2b_base64 (table_b2a_base64 ! n) = Some (of_nat n)"
  by code_simp

lemma table_b2a_not_pad_upto: "\<forall>n \<in> set [0..<64]. table_b2a_base64 ! n \<noteq> CHR ''=''"
  by code_simp

lemma a2b_b2a:
  assumes "v < 64"
  shows "table_a2b_base64 (b2a v) = Some v"
proof -
  from assms have "unat v < 64" by (simp add: word_less_nat_alt)
  then have "unat v \<in> set [0..<64]" by simp
  with table_a2b_b2a_upto
  have "table_a2b_base64 (table_b2a_base64 ! unat v) = Some (of_nat (unat v))"
    by blast
  then show ?thesis by (simp add: b2a_def)
qed

lemma b2a_not_pad:
  assumes "v < 64"
  shows "b2a v \<noteq> CHR ''=''"
proof -
  from assms have "unat v < 64" by (simp add: word_less_nat_alt)
  then have "unat v \<in> set [0..<64]" by simp
  with table_b2a_not_pad_upto show ?thesis unfolding b2a_def by blast
qed

text \<open>The masks of the encoder and the decoder as bit ranges.\<close>

lemma and_masks:
  fixes a :: "8 word"
  shows "a AND 3 = take_bit 2 a" "a AND 15 = take_bit 4 a" "a AND 63 = take_bit 6 a"
  by (simp_all add: take_bit_eq_mask mask_eq_exp_minus_1)

lemma shifted_index:
  "2 \<le> n \<Longrightarrow> Suc (Suc (n - 2)) = n"
  "4 \<le> n \<Longrightarrow> 4 + (n - 4) = n"
  "6 \<le> n \<Longrightarrow> 6 + (n - 6) = n"
  by simp_all

text \<open>
  What the decoder writes for the characters of one group is what the encoder read:
  the first, second and third byte, with and without a following byte.
\<close>

lemma first_byte:
  fixes a b :: "8 word"
  shows "push_bit 2 (drop_bit 2 a) OR drop_bit 4 (push_bit 4 (a AND 3) OR drop_bit 4 b) = a"
  apply (simp only: and_masks)
  apply (rule bit_word_eqI)
  subgoal for n
    by (cases "2 \<le> n") (auto simp add: bit_simps shifted_index)
  done

lemma first_byte_last:
  fixes a :: "8 word"
  shows "push_bit 2 (drop_bit 2 a) OR drop_bit 4 (push_bit 4 (a AND 3)) = a"
  apply (simp only: and_masks)
  apply (rule bit_word_eqI)
  subgoal for n
    by (cases "2 \<le> n") (auto simp add: bit_simps shifted_index)
  done

lemma second_byte:
  fixes a b c :: "8 word"
  shows "push_bit 4 ((push_bit 4 (a AND 3) OR drop_bit 4 b) AND 15) OR
         drop_bit 2 (push_bit 2 (b AND 15) OR drop_bit 6 c) = b"
  apply (simp only: and_masks)
  apply (rule bit_word_eqI)
  apply (auto simp add: bit_simps shifted_index)
  done

lemma second_byte_last:
  fixes a b :: "8 word"
  shows "push_bit 4 ((push_bit 4 (a AND 3) OR drop_bit 4 b) AND 15) OR
         drop_bit 2 (push_bit 2 (b AND 15)) = b"
  apply (simp only: and_masks)
  apply (rule bit_word_eqI)
  apply (auto simp add: bit_simps shifted_index)
  done

lemma third_byte:
  fixes b c :: "8 word"
  shows "push_bit 6 ((push_bit 2 (b AND 15) OR drop_bit 6 c) AND 3) OR (c AND 63) = c"
  apply (simp only: and_masks)
  apply (rule bit_word_eqI)
  apply (auto simp add: bit_simps shifted_index)
  done

lemma sextetI:
  fixes v :: "8 word"
  assumes "take_bit 6 v = v"
  shows "v < 64"
proof -
  have "v AND mask 6 < 2 ^ 6" by (rule and_mask_less') simp
  with assms show ?thesis by (simp add: take_bit_eq_mask)
qed

lemma sextet_bounds:
  fixes a b c :: "8 word"
  shows "drop_bit 2 a < 64" "push_bit 4 (a AND 3) < 64"
    "push_bit 4 (a AND 3) OR drop_bit 4 b < 64"
    "push_bit 2 (b AND 15) < 64"
    "push_bit 2 (b AND 15) OR drop_bit 6 c < 64"
    "c AND 63 < 64"
  by (simp_all only: and_masks)
    (rule sextetI, rule bit_word_eqI, auto simp add: bit_simps dest: bit_imp_le_length)+

text \<open>One step of the decoder on a character of the alphabet, at each position of a group.\<close>

lemma a2b_base64_loop_step:
  assumes "v < 64"
  shows "a2b_base64_loop (b2a v # rest) 0 lc pads out = a2b_base64_loop rest 1 v 0 out"
    and "a2b_base64_loop (b2a v # rest) 1 lc pads out =
         a2b_base64_loop rest 2 (v AND 15) 0 (out @ [push_bit 2 lc OR drop_bit 4 v])"
    and "a2b_base64_loop (b2a v # rest) 2 lc pads out =
         a2b_base64_loop rest 3 (v AND 3) 0 (out @ [push_bit 4 lc OR drop_bit 2 v])"
    and "a2b_base64_loop (b2a v # rest) 3 lc pads out =
         a2b_base64_loop rest 0 0 0 (out @ [push_bit 6 lc OR v])"
  using assms by (simp_all add: a2b_b2a b2a_not_pad)

lemma a2b_base64_loop_pad:
  "a2b_base64_loop (CHR ''='' # rest) 3 lc 0 out = Inr out"
  "a2b_base64_loop (CHR ''='' # CHR ''='' # rest) 2 lc 0 out = Inr out"
  by simp_all

text \<open>
  The decoder, started at a group boundary with any bytes already written, appends the
  encoded bytes. Induction on the encoder's recursion: the empty input, one byte, two
  bytes, and three bytes followed by the rest.
\<close>

lemma a2b_base64_loop_b64encode:
  "a2b_base64_loop (b64encode bs) 0 leftchar 0 out = Inr (out @ bs)"
proof (induction bs arbitrary: leftchar out rule: b64encode.induct)
  case 1
  show ?case by simp
next
  case (2 a)
  show ?case
    by (simp only: b64encode.simps a2b_base64_loop_step sextet_bounds a2b_base64_loop_pad
        first_byte_last)
next
  case (3 a b)
  show ?case
    by (simp only: b64encode.simps a2b_base64_loop_step sextet_bounds a2b_base64_loop_pad
        first_byte second_byte_last append.simps append_assoc)
next
  case (4 a b c rest)
  show ?case
    by (simp only: b64encode.simps a2b_base64_loop_step sextet_bounds first_byte second_byte
        third_byte append.simps append_assoc "4.IH")
qed

lemma b64decode_b64encode: "b64decode (b64encode bs) = Inr bs"
  by (simp add: b64decode_def a2b_base64_loop_b64encode)

text \<open>
  C9. For every byte sequence \<open>b\<close>, the binary-field converter applied to the base64
  encoding of \<open>b\<close> returns exactly \<open>b\<close>.
\<close>

theorem convert_binaryfield_value_roundtrip:
  "convert_binaryfield_value (Some (b64encode b)) expression conn = Inr (Some b)"
  by (simp add: convert_binaryfield_value_def b64decode_b64encode bind_result_def)

end
